theory Spec2Isabelle
  imports Complex_Main
begin

section \<open>Numeric arrays\<close>

text \<open>
  The notebooks compute with numpy arrays of fixed shape: 3-vectors, quaternion storage
  of four numbers and 3x3 matrices. An array of shape (3,) is a triple, a quaternion a
  4-tuple, a 3x3 matrix the triple of its rows. A Python float is a real number here:
  rounding is not part of this model.
\<close>

type_synonym vec3 = "real \<times> real \<times> real"
type_synonym vec4 = "real \<times> real \<times> real \<times> real"
type_synonym mat3 = "vec3 \<times> vec3 \<times> vec3"

datatype error = LinAlgError | AttributeError

definition zeros3 :: vec3 where
  "zeros3 = (0, 0, 0)"

fun vadd :: "vec3 \<Rightarrow> vec3 \<Rightarrow> vec3" where
  "vadd (a0, a1, a2) (b0, b1, b2) = (a0 + b0, a1 + b1, a2 + b2)"

fun vsub :: "vec3 \<Rightarrow> vec3 \<Rightarrow> vec3" where
  "vsub (a0, a1, a2) (b0, b1, b2) = (a0 - b0, a1 - b1, a2 - b2)"

fun smul :: "real \<Rightarrow> vec3 \<Rightarrow> vec3" where
  "smul c (a0, a1, a2) = (c * a0, c * a1, c * a2)"

fun dot3 :: "vec3 \<Rightarrow> vec3 \<Rightarrow> real" where
  "dot3 (a0, a1, a2) (b0, b1, b2) = a0 * b0 + a1 * b1 + a2 * b2"

fun dot4 :: "vec4 \<Rightarrow> vec4 \<Rightarrow> real" where
  "dot4 (a0, a1, a2, a3) (b0, b1, b2, b3) = a0 * b0 + a1 * b1 + a2 * b2 + a3 * b3"

text \<open>\<^verbatim>\<open>np.cross(a, b)\<close>\<close>

fun cross :: "vec3 \<Rightarrow> vec3 \<Rightarrow> vec3" where
  "cross (a0, a1, a2) (b0, b1, b2) =
     (a1 * b2 - a2 * b1, a2 * b0 - a0 * b2, a0 * b1 - a1 * b0)"

text \<open>\<^verbatim>\<open>M @ v\<close> for a 3x3 matrix and a 3-vector.\<close>

fun matvec :: "mat3 \<Rightarrow> vec3 \<Rightarrow> vec3" where
  "matvec (r0, r1, r2) v = (dot3 r0 v, dot3 r1 v, dot3 r2 v)"

text \<open>\<^verbatim>\<open>np.diag([a, b, c])\<close>\<close>

definition diag :: "real \<Rightarrow> real \<Rightarrow> real \<Rightarrow> mat3" where
  "diag a b c = ((a, 0, 0), (0, b, 0), (0, 0, c))"

fun det3 :: "mat3 \<Rightarrow> real" where
  "det3 ((a, b, c), (d, e, f), (g, h, i)) =
     a * (e * i - f * h) - b * (d * i - f * g) + c * (d * h - e * g)"

text \<open>
  \<^verbatim>\<open>np.linalg.inv(M)\<close>: the inverse of a 3x3 matrix, \<^verbatim>\<open>LinAlgError\<close> when the
  matrix is singular.
\<close>

fun linalg_inv :: "mat3 \<Rightarrow> error + mat3" where
  "linalg_inv ((a, b, c), (d, e, f), (g, h, i)) =
     (let dt = det3 ((a, b, c), (d, e, f), (g, h, i)) in
      if dt = 0 then Inl LinAlgError
      else Inr (((e * i - f * h) / dt, (c * h - b * i) / dt, (b * f - c * e) / dt),
                ((f * g - d * i) / dt, (a * i - c * g) / dt, (c * d - a * f) / dt),
                ((d * h - e * g) / dt, (b * g - a * h) / dt, (a * e - b * d) / dt)))"

section \<open>The rotation type of the sym library\<close>

text \<open>
  \<^verbatim>\<open>sym.Rot3\<close> is the rotation class of the symforce library, which the notebooks
  import. It stores a quaternion as four numbers in the order x, y, z, w.
  \<^verbatim>\<open>from_storage\<close> wraps four numbers without normalising them, \<^verbatim>\<open>to_storage\<close>
  returns them.
\<close>

datatype Rot3 = from_storage (to_storage: vec4)

text \<open>\<^verbatim>\<open>a.compose(b)\<close>: the quaternion product of a and b.\<close>

fun compose :: "Rot3 \<Rightarrow> Rot3 \<Rightarrow> Rot3" where
  "compose (from_storage (ax, ay, az, aw)) (from_storage (bx, by, bz, bw)) =
     from_storage (aw * bx + ax * bw + ay * bz - az * by,
                   aw * by - ax * bz + ay * bw + az * bx,
                   aw * bz + ax * by - ay * bx + az * bw,
                   aw * bw - ax * bx - ay * by - az * bz)"

text \<open>\<^verbatim>\<open>r.inverse()\<close>: the conjugate quaternion.\<close>

fun inverse_rot :: "Rot3 \<Rightarrow> Rot3" where
  "inverse_rot (from_storage (x, y, z, w)) = from_storage (- x, - y, - z, w)"

text \<open>\<^verbatim>\<open>r.to_rotation_matrix()\<close>\<close>

fun to_rotation_matrix :: "Rot3 \<Rightarrow> mat3" where
  "to_rotation_matrix (from_storage (x, y, z, w)) =
     ((1 - 2 * y\<^sup>2 - 2 * z\<^sup>2, 2 * x * y - 2 * z * w, 2 * y * w + 2 * x * z),
      (2 * x * y + 2 * z * w, 1 - 2 * z\<^sup>2 - 2 * x\<^sup>2, 2 * z * y - 2 * x * w),
      (- (2 * y * w) + 2 * x * z, 2 * z * y + 2 * x * w, 1 - 2 * y\<^sup>2 - 2 * x\<^sup>2))"

text \<open>
  \<^verbatim>\<open>Rot3.from_yaw_pitch_roll(yaw, pitch, roll)\<close>: the rotation about z by yaw, composed
  with the rotation about y by pitch, composed with the rotation about x by roll.
\<close>

definition from_angle_axis_x :: "real \<Rightarrow> Rot3" where
  "from_angle_axis_x a = from_storage (sin (a / 2), 0, 0, cos (a / 2))"

definition from_angle_axis_y :: "real \<Rightarrow> Rot3" where
  "from_angle_axis_y a = from_storage (0, sin (a / 2), 0, cos (a / 2))"

definition from_angle_axis_z :: "real \<Rightarrow> Rot3" where
  "from_angle_axis_z a = from_storage (0, 0, sin (a / 2), cos (a / 2))"

definition from_yaw_pitch_roll :: "real \<Rightarrow> real \<Rightarrow> real \<Rightarrow> Rot3" where
  "from_yaw_pitch_roll yaw pitch roll =
     compose (compose (from_angle_axis_z yaw) (from_angle_axis_y pitch))
             (from_angle_axis_x roll)"

text \<open>\<^verbatim>\<open>math.atan2(y, x)\<close>\<close>

definition atan2 :: "real \<Rightarrow> real \<Rightarrow> real" where
  "atan2 y x =
     (if 0 < x then arctan (y / x)
      else if x < 0 then (if 0 \<le> y then arctan (y / x) + pi else arctan (y / x) - pi)
      else if 0 < y then pi / 2
      else if y < 0 then - (pi / 2)
      else 0)"

text \<open>\<^verbatim>\<open>r.to_yaw_pitch_roll()[0]\<close>: the yaw angle of a rotation.\<close>

fun to_yaw :: "Rot3 \<Rightarrow> real" where
  "to_yaw (from_storage (x, y, z, w)) =
     atan2 (2 * x * y + 2 * w * z) (x\<^sup>2 + w\<^sup>2 - z\<^sup>2 - y\<^sup>2)"

section \<open>The quaternion rate\<close>

text \<open>
  \<^verbatim>\<open>dRot3(R, omega)\<close>, the same in both notebooks: the 3x4 matrix G of the quaternion
  and \<^verbatim>\<open>(G.T @ omega) / 2\<close>, wrapped by \<^verbatim>\<open>Rot3.from_storage\<close>.
\<close>

type_synonym mat34 = "vec4 \<times> vec4 \<times> vec4"

definition G_matrix :: "vec4 \<Rightarrow> mat34" where
  "G_matrix quat =
     (case quat of (q0, q1, q2, q3) \<Rightarrow>
        (( q3,  q2, - q1, - q0),
         (- q2,  q3,  q0, - q1),
         ( q1, - q0,  q3, - q2)))"

text \<open>\<^verbatim>\<open>G.T @ omega\<close>: entry j sums \<^verbatim>\<open>G[i][j] * omega[i]\<close> over the three rows.\<close>

fun transpose_matvec :: "mat34 \<Rightarrow> vec3 \<Rightarrow> vec4" where
  "transpose_matvec ((a0, a1, a2, a3), (b0, b1, b2, b3), (c0, c1, c2, c3)) (w0, w1, w2) =
     (a0 * w0 + b0 * w1 + c0 * w2,
      a1 * w0 + b1 * w1 + c1 * w2,
      a2 * w0 + b2 * w1 + c2 * w2,
      a3 * w0 + b3 * w1 + c3 * w2)"

fun sdiv4 :: "vec4 \<Rightarrow> real \<Rightarrow> vec4" where
  "sdiv4 (a0, a1, a2, a3) c = (a0 / c, a1 / c, a2 / c, a3 / c)"

definition dRot3 :: "Rot3 \<Rightarrow> vec3 \<Rightarrow> Rot3" where
  "dRot3 R omega =
     (let quat = to_storage R;
          G = G_matrix quat;
          quat_dot = sdiv4 (transpose_matvec G omega) 2
      in from_storage quat_dot)"

section \<open>Vehicle parameters\<close>

text \<open>
  The dataclass \<^verbatim>\<open>Params\<close> and its module-level instance \<^verbatim>\<open>p = Params()\<close>, the
  same in both notebooks. The functions below read the global \<^verbatim>\<open>p\<close>, as the source does.
\<close>

record Params =
  mass :: real
  inertia :: mat3
  rotor_diameter :: real
  static_thrust_coefficient :: real
  static_torque_coefficient :: real
  arm_length :: real
  g :: real
  rho :: real

definition rotor_model :: "Params \<Rightarrow> real \<Rightarrow> real" where
  "rotor_model self static_coefficient =
     rho self * static_coefficient * (rotor_diameter self ^ 4) / (4 * pi ^ 2)"

definition k_thrust :: "Params \<Rightarrow> real" where
  "k_thrust self = rotor_model self (static_thrust_coefficient self)"

definition k_torque :: "Params \<Rightarrow> real" where
  "k_torque self = rotor_model self (static_torque_coefficient self)"

definition p :: Params where
  "p = \<lparr> mass = 1.352,
         inertia = ((0.0098, 0, 0), (0, 0.01002, 0), (0, 0, 0.0186)),
         rotor_diameter = 10 * 0.0254,
         static_thrust_coefficient = 0.14553,
         static_torque_coefficient = 0.01047,
         arm_length = 0.3814 / 2.0,
         g = 9.80665,
         rho = 1.225 \<rparr>"

section \<open>States, commands and trajectory samples\<close>

text \<open>
  The classes \<^verbatim>\<open>TrajectoryState\<close>, \<^verbatim>\<open>QuadrotorState\<close>, \<^verbatim>\<open>QuadrotorCommands\<close> and
  \<^verbatim>\<open>QuadrotorDynamicsBase\<close> are imported from the package \<^verbatim>\<open>quadrotor\<close>, whose files
  are not among the sources. Each is modelled below from the specification and from the
  fields that the notebooks read and write.
\<close>

text \<open>
  Modelled from the spec: \<^verbatim>\<open>TrajectoryState\<close>, whose declaration is missing. A
  trajectory sample has a timestamp, a desired position, a yaw and a yaw rate (section 3
  of the specification); the notebooks construct it as
  \<^verbatim>\<open>TrajectoryState(t, position=position, yaw=yaw, yaw_rate=yaw_rate)\<close>.
\<close>

record TrajectoryState =
  time :: real
  position :: vec3
  yaw :: real
  yaw_rate :: real

text \<open>
  Modelled from the spec: \<^verbatim>\<open>QuadrotorState\<close>, whose declaration is missing. The
  vehicle state has a position, a velocity, an orientation and an angular velocity
  (section 3 of the specification); the notebooks construct it with these four keywords.
\<close>

record QuadrotorState =
  position :: vec3
  velocity :: vec3
  orientation :: Rot3
  angular_velocity :: vec3

text \<open>
  Modelled from the spec: \<^verbatim>\<open>QuadrotorCommands\<close>, whose declaration is missing. A
  command is either four rotor rates or a collective thrust u1 with a body torque u2
  (section 3 of the specification); reading the fields of the other representation is
  an \<^verbatim>\<open>AttributeError\<close>. The last cell of the notebook 5-Controller-Full records a run
  in which the call \<^verbatim>\<open>QuadrotorCommands(u1, u2)\<close> raised \<^verbatim>\<open>TypeError\<close> with the package
  as it was installed then; the command type here takes both representations, as the
  specification says.
\<close>

datatype QuadrotorCommands = RotorRates vec4 | ThrustTorque real vec3

text \<open>
  Modelled from the spec: \<^verbatim>\<open>QuadrotorDynamicsBase\<close>, whose declaration is missing. The
  dynamics object holds the timestep \<^verbatim>\<open>dt\<close> that the simulation driver is configured
  with; the notebook 3 - Reworking reads it as \<^verbatim>\<open>self.dt\<close>.
\<close>

record QuadrotorDynamicsBase =
  dt :: real

text \<open>Indexing: \<^verbatim>\<open>v[0]\<close>, \<^verbatim>\<open>v[1]\<close>, \<^verbatim>\<open>v[2]\<close>, and \<^verbatim>\<open>M[i, j]\<close> as entry j of row i.\<close>

fun at0 :: "'a \<times> 'a \<times> 'a \<Rightarrow> 'a" where
  "at0 (a, b, c) = a"

fun at1 :: "'a \<times> 'a \<times> 'a \<Rightarrow> 'a" where
  "at1 (a, b, c) = b"

fun at2 :: "'a \<times> 'a \<times> 'a \<Rightarrow> 'a" where
  "at2 (a, b, c) = c"

text \<open>\<^verbatim>\<open>v * c\<close> for a vector v and a scalar c.\<close>

fun vscale :: "vec3 \<Rightarrow> real \<Rightarrow> vec3" where
  "vscale (a0, a1, a2) c = (a0 * c, a1 * c, a2 * c)"

text \<open>The Euclidean norm of quaternion storage.\<close>

definition norm4 :: "vec4 \<Rightarrow> real" where
  "norm4 q = sqrt (dot4 q q)"

section \<open>The dynamics of the notebook 5-Controller-Full\<close>

text \<open>
  \<^verbatim>\<open>FullQuadrotorDynamics.step(self, t, commands, state)\<close>. The line
  \<^verbatim>\<open>acceleration = (u1 / p.mass) * np.array([0, 0, 1]) - np.array([0, 0, p.g])\<close> is
  \<open>Full_acceleration\<close>; the rest of the body follows the source line by line. The local
  \<^verbatim>\<open>dt = 0.005\<close> hides the timestep of the object.
\<close>

definition Full_acceleration :: "real \<Rightarrow> vec3" where
  "Full_acceleration u1 = vsub (smul (u1 / mass p) (0, 0, 1)) (0, 0, g p)"

definition Full_step ::
  "QuadrotorDynamicsBase \<Rightarrow> real \<Rightarrow> QuadrotorCommands \<Rightarrow> QuadrotorState
     \<Rightarrow> error + QuadrotorState" where
  "Full_step self t commands state =
     (let dt = 0.005;
          position = QuadrotorState.position state;
          velocity = QuadrotorState.velocity state;
          orientation = QuadrotorState.orientation state;
          angular_velocity = QuadrotorState.angular_velocity state
      in case commands of
           RotorRates rates \<Rightarrow> Inl AttributeError
         | ThrustTorque u1 u2 \<Rightarrow>
             (let acceleration = Full_acceleration u1;
                  new_velocity = vadd velocity (vscale acceleration dt);
                  new_position = vadd position (vscale new_velocity dt)
              in case linalg_inv (inertia p) of
                   Inl e \<Rightarrow> Inl e
                 | Inr inertia_inv \<Rightarrow>
                     (let angular_acceleration =
                            matvec inertia_inv
                              (vsub u2 (cross angular_velocity
                                          (matvec (inertia p) angular_velocity)));
                          new_angular_velocity =
                            vadd angular_velocity (vscale angular_acceleration dt);
                          new_orientation = dRot3 orientation new_angular_velocity
                      in Inr \<lparr> position = new_position,
                               velocity = new_velocity,
                               orientation = new_orientation,
                               angular_velocity = new_angular_velocity \<rparr>)))"

text \<open>
  The linear acceleration as the specification words it: the thrust vector (0, 0, u1)
  rotated by the rotation matrix of the orientation, scaled by 1 / mass, plus gravity
  (0, 0, - g).
\<close>

definition spec_acceleration :: "Rot3 \<Rightarrow> real \<Rightarrow> vec3" where
  "spec_acceleration r u1 =
     vadd (smul (1 / mass p) (matvec (to_rotation_matrix r) (0, 0, u1))) (0, 0, - g p)"

text \<open>
  One forward Euler step of the velocity over a timestep h under the acceleration of
  the source: the velocity that a step advancing by the timestep h of the driver
  returns.
\<close>

definition euler_velocity :: "real \<Rightarrow> real \<Rightarrow> vec3 \<Rightarrow> vec3" where
  "euler_velocity h u1 v = vadd v (vscale (Full_acceleration u1) h)"

section \<open>The controller of the notebook 5-Controller-Full\<close>

record ControllerParams =
  K_p :: mat3
  K_d :: mat3
  Ka_p :: mat3
  Ka_d :: mat3
  rotor_rate_min :: real
  rotor_rate_max :: real

definition controller_p :: ControllerParams where
  "controller_p = \<lparr> K_p = diag 1 1 100,
                    K_d = diag 0.5 0.5 10,
                    Ka_p = diag 300 300 50,
                    Ka_d = diag 50 50 20,
                    rotor_rate_min = 180,
                    rotor_rate_max = 600 \<rparr>"

record Controller =
  params :: ControllerParams

text \<open>
  \<^verbatim>\<open>Controller.__init__(self, params)\<close> stores the parameters. The result type has
  room for a failure, so that a rejected configuration could be told from an accepted
  one.
\<close>

definition Controller_init :: "ControllerParams \<Rightarrow> error + Controller" where
  "Controller_init params_arg = Inr \<lparr> params = params_arg \<rparr>"

text \<open>A gain matrix as the specification wants it: diagonal, with strictly positive entries.\<close>

fun diagonal_positive :: "mat3 \<Rightarrow> bool" where
  "diagonal_positive ((a, b, c), (d, e, f), (g', h, i)) =
     (0 < a \<and> 0 < e \<and> 0 < i \<and> b = 0 \<and> c = 0 \<and> d = 0 \<and> f = 0 \<and> g' = 0 \<and> h = 0)"

definition gains_valid :: "ControllerParams \<Rightarrow> bool" where
  "gains_valid ps =
     (diagonal_positive (K_p ps) \<and> diagonal_positive (K_d ps)
      \<and> diagonal_positive (Ka_p ps) \<and> diagonal_positive (Ka_d ps))"

text \<open>
  \<^verbatim>\<open>Controller.step(self, t, trajectory, state)\<close>. Its first lines, up to
  \<^verbatim>\<open>commanded_acceleration\<close>, and the lines up to \<^verbatim>\<open>desired_orientation\<close> are
  definitions of their own, which the step uses.
\<close>

definition commanded_acceleration :: "Controller \<Rightarrow> TrajectoryState \<Rightarrow> QuadrotorState \<Rightarrow> vec3" where
  "commanded_acceleration self trajectory state =
     (let desired_position = TrajectoryState.position trajectory;
          actual_position = QuadrotorState.position state;
          position_error = vsub desired_position actual_position;
          desired_velocity = zeros3;
          actual_velocity = QuadrotorState.velocity state;
          velocity_error = vsub desired_velocity actual_velocity
      in vadd (matvec (K_p (params self)) position_error)
              (matvec (K_d (params self)) velocity_error))"

definition desired_orientation :: "Controller \<Rightarrow> TrajectoryState \<Rightarrow> QuadrotorState \<Rightarrow> Rot3" where
  "desired_orientation self trajectory state =
     (let acc = commanded_acceleration self trajectory state;
          yaw = to_yaw (QuadrotorState.orientation state);
          phi_des = (1 / g p) * (at0 acc * sin yaw - at1 acc * cos yaw);
          theta_des = (1 / g p) * (at0 acc * cos yaw + at1 acc * sin yaw)
      in from_yaw_pitch_roll (TrajectoryState.yaw trajectory) theta_des phi_des)"

definition Controller_step ::
  "Controller \<Rightarrow> real \<Rightarrow> TrajectoryState \<Rightarrow> QuadrotorState \<Rightarrow> QuadrotorCommands" where
  "Controller_step self t trajectory state =
     (let acc = commanded_acceleration self trajectory state;
          u1 = mass p * (g p + at2 acc);
          orientation_error =
            compose (desired_orientation self trajectory state)
                    (inverse_rot (QuadrotorState.orientation state));
          orientation_error_matrix = to_rotation_matrix orientation_error;
          orientation_error_vec = (at1 (at2 orientation_error_matrix),
                                   at2 (at0 orientation_error_matrix),
                                   at0 (at1 orientation_error_matrix));
          angular_velocity_error = vsub zeros3 (QuadrotorState.angular_velocity state);
          u2 = vadd (matvec (Ka_p (params self)) orientation_error_vec)
                    (matvec (Ka_d (params self)) angular_velocity_error)
      in ThrustTorque u1 u2)"

text \<open>The thrust of a command, for stating what the controller emits.\<close>

fun thrust_of :: "QuadrotorCommands \<Rightarrow> real option" where
  "thrust_of (ThrustTorque u1 u2) = Some u1"
| "thrust_of (RotorRates rates) = None"

text \<open>
  The initial state of the notebooks: at the origin, at rest, level; and a trajectory
  sample whose position is the origin, with yaw zero.
\<close>

definition goal_sample :: TrajectoryState where
  "goal_sample = \<lparr> time = 0, position = (0, 0, 0), yaw = 0, yaw_rate = 0 \<rparr>"


definition initial_state :: QuadrotorState where
  "initial_state = \<lparr> position = zeros3,
                     velocity = (0, 0, 0),
                     orientation = from_yaw_pitch_roll 0 0 0,
                     angular_velocity = zeros3 \<rparr>"

section \<open>The dynamics of the notebook 3 - Reworking\<close>

text \<open>
  \<^verbatim>\<open>FullQuadrotorDynamics.step(self, t, input)\<close> of this notebook first mixes the four
  rotor rates into \<^verbatim>\<open>u1\<close> and \<^verbatim>\<open>u2\<close>, then hands \<^verbatim>\<open>state_derivative\<close> to
  \<^verbatim>\<open>scipy.integrate.solve_ivp\<close> over \<^verbatim>\<open>(0, self.dt)\<close>. The mixing lines and
  \<^verbatim>\<open>state_derivative\<close> are embedded here; the adaptive Runge-Kutta solver of scipy is
  not.
\<close>

fun rotor_thrust_model :: "vec4 \<Rightarrow> vec4" where
  "rotor_thrust_model (r0, r1, r2, r3) =
     (k_thrust p * r0\<^sup>2, k_thrust p * r1\<^sup>2, k_thrust p * r2\<^sup>2, k_thrust p * r3\<^sup>2)"

fun sum4 :: "vec4 \<Rightarrow> real" where
  "sum4 (a0, a1, a2, a3) = a0 + a1 + a2 + a3"

definition Reworking_u1 :: "vec4 \<Rightarrow> vec3" where
  "Reworking_u1 rotor_rates =
     (let thrusts = rotor_thrust_model rotor_rates in (0, 0, sum4 thrusts))"

fun Reworking_u2 :: "vec4 \<Rightarrow> vec3" where
  "Reworking_u2 (r0, r1, r2, r3) =
     (case rotor_thrust_model (r0, r1, r2, r3) of (th0, th1, th2, th3) \<Rightarrow>
        (arm_length p * (th0 - th2),
         arm_length p * (th1 - th3),
         k_torque p * (r0 - r1 + r2 - r3)))"

definition state_derivative :: "QuadrotorState \<Rightarrow> vec3 \<Rightarrow> vec3 \<Rightarrow> error + QuadrotorState" where
  "state_derivative state u1 u2 =
     (let R = to_rotation_matrix (QuadrotorState.orientation state);
          gravity = (0, 0, - g p);
          accel = smul (1 / mass p) (vadd (matvec R u1) (smul (mass p) gravity));
          omega = QuadrotorState.angular_velocity state
      in case linalg_inv (inertia p) of
           Inl e \<Rightarrow> Inl e
         | Inr inertia_inv \<Rightarrow>
             (let angular_accel =
                    matvec inertia_inv (vsub u2 (cross omega (matvec (inertia p) omega)))
              in Inr \<lparr> position = QuadrotorState.velocity state,
                       velocity = accel,
                       orientation = dRot3 (QuadrotorState.orientation state) omega,
                       angular_velocity = angular_accel \<rparr>))"

text \<open>
  The cell after the dynamics: the rotor rate at which four rotors carry the weight, and
  the command of \<^verbatim>\<open>HoveringController.step\<close>.
\<close>

definition required_thrust :: real where
  "required_thrust = mass p * g p"

definition hovering_rotor_rate :: real where
  "hovering_rotor_rate = sqrt (required_thrust / (4 * k_thrust p))"

definition hovering_rates :: vec4 where
  "hovering_rates =
     (hovering_rotor_rate, hovering_rotor_rate, hovering_rotor_rate, hovering_rotor_rate)"

section \<open>The step on numbers that may be non-finite\<close>

text \<open>
  A real number is always finite, so the step above cannot be asked about NaN or
  infinity. Here a number is a finite real, plus or minus infinity, or NaN, and the
  arithmetic follows IEEE 754 on the special values: NaN is absorbing, infinity minus
  infinity and infinity times zero are NaN. On finite values the arithmetic is that of
  the reals: rounding, overflow and signed zeros are not part of this model. The
  divisors of the step are the constants \<^verbatim>\<open>p.mass\<close> and 2, so division by zero does
  not occur in it.

  \<open>Full_step_fl\<close> is \<^verbatim>\<open>FullQuadrotorDynamics.step\<close> of the notebook
  5-Controller-Full once more, line by line, on these numbers; \<open>dRot3_fl\<close> is
  \<^verbatim>\<open>(G.T @ omega) / 2\<close> written out entry by entry.
\<close>

datatype fl = Finite real | PosInf | NegInf | NaN

fun fneg :: "fl \<Rightarrow> fl" where
  "fneg (Finite a) = Finite (- a)"
| "fneg PosInf = NegInf"
| "fneg NegInf = PosInf"
| "fneg NaN = NaN"

fun fadd :: "fl \<Rightarrow> fl \<Rightarrow> fl" where
  "fadd (Finite a) (Finite b) = Finite (a + b)"
| "fadd NaN y = NaN"
| "fadd x NaN = NaN"
| "fadd PosInf NegInf = NaN"
| "fadd NegInf PosInf = NaN"
| "fadd PosInf y = PosInf"
| "fadd x PosInf = PosInf"
| "fadd NegInf y = NegInf"
| "fadd x NegInf = NegInf"

definition fsub :: "fl \<Rightarrow> fl \<Rightarrow> fl" where
  "fsub x y = fadd x (fneg y)"

fun fmul :: "fl \<Rightarrow> fl \<Rightarrow> fl" where
  "fmul (Finite a) (Finite b) = Finite (a * b)"
| "fmul NaN y = NaN"
| "fmul x NaN = NaN"
| "fmul PosInf (Finite b) = (if b = 0 then NaN else if 0 < b then PosInf else NegInf)"
| "fmul NegInf (Finite b) = (if b = 0 then NaN else if 0 < b then NegInf else PosInf)"
| "fmul (Finite a) PosInf = (if a = 0 then NaN else if 0 < a then PosInf else NegInf)"
| "fmul (Finite a) NegInf = (if a = 0 then NaN else if 0 < a then NegInf else PosInf)"
| "fmul PosInf PosInf = PosInf"
| "fmul PosInf NegInf = NegInf"
| "fmul NegInf PosInf = NegInf"
| "fmul NegInf NegInf = PosInf"

fun fdiv :: "fl \<Rightarrow> fl \<Rightarrow> fl" where
  "fdiv (Finite a) (Finite b) =
     (if b = 0 then (if a = 0 then NaN else if 0 < a then PosInf else NegInf)
      else Finite (a / b))"
| "fdiv NaN y = NaN"
| "fdiv x NaN = NaN"
| "fdiv (Finite a) y = Finite 0"
| "fdiv PosInf (Finite b) = (if 0 \<le> b then PosInf else NegInf)"
| "fdiv NegInf (Finite b) = (if 0 \<le> b then NegInf else PosInf)"
| "fdiv x y = NaN"

text \<open>Arrays of such numbers, and the array operations on them.\<close>

type_synonym fvec3 = "fl \<times> fl \<times> fl"
type_synonym fvec4 = "fl \<times> fl \<times> fl \<times> fl"
type_synonym fmat3 = "fvec3 \<times> fvec3 \<times> fvec3"

fun fvec :: "vec3 \<Rightarrow> fvec3" where
  "fvec (a0, a1, a2) = (Finite a0, Finite a1, Finite a2)"

fun fquat :: "vec4 \<Rightarrow> fvec4" where
  "fquat (a0, a1, a2, a3) = (Finite a0, Finite a1, Finite a2, Finite a3)"

fun fmat :: "mat3 \<Rightarrow> fmat3" where
  "fmat (r0, r1, r2) = (fvec r0, fvec r1, fvec r2)"

fun fvadd :: "fvec3 \<Rightarrow> fvec3 \<Rightarrow> fvec3" where
  "fvadd (a0, a1, a2) (b0, b1, b2) = (fadd a0 b0, fadd a1 b1, fadd a2 b2)"

fun fvsub :: "fvec3 \<Rightarrow> fvec3 \<Rightarrow> fvec3" where
  "fvsub (a0, a1, a2) (b0, b1, b2) = (fsub a0 b0, fsub a1 b1, fsub a2 b2)"

fun fsmul :: "fl \<Rightarrow> fvec3 \<Rightarrow> fvec3" where
  "fsmul c (a0, a1, a2) = (fmul c a0, fmul c a1, fmul c a2)"

fun fvscale :: "fvec3 \<Rightarrow> fl \<Rightarrow> fvec3" where
  "fvscale (a0, a1, a2) c = (fmul a0 c, fmul a1 c, fmul a2 c)"

fun fdot3 :: "fvec3 \<Rightarrow> fvec3 \<Rightarrow> fl" where
  "fdot3 (a0, a1, a2) (b0, b1, b2) = fadd (fadd (fmul a0 b0) (fmul a1 b1)) (fmul a2 b2)"

fun fcross :: "fvec3 \<Rightarrow> fvec3 \<Rightarrow> fvec3" where
  "fcross (a0, a1, a2) (b0, b1, b2) =
     (fsub (fmul a1 b2) (fmul a2 b1), fsub (fmul a2 b0) (fmul a0 b2),
      fsub (fmul a0 b1) (fmul a1 b0))"

fun fmatvec :: "fmat3 \<Rightarrow> fvec3 \<Rightarrow> fvec3" where
  "fmatvec (r0, r1, r2) v = (fdot3 r0 v, fdot3 r1 v, fdot3 r2 v)"

fun dRot3_fl :: "fvec4 \<Rightarrow> fvec3 \<Rightarrow> fvec4" where
  "dRot3_fl (q0, q1, q2, q3) (w0, w1, w2) =
     (fdiv (fadd (fadd (fmul q3 w0) (fmul (fneg q2) w1)) (fmul q1 w2)) (Finite 2),
      fdiv (fadd (fadd (fmul q2 w0) (fmul q3 w1)) (fmul (fneg q0) w2)) (Finite 2),
      fdiv (fadd (fadd (fmul (fneg q1) w0) (fmul q0 w1)) (fmul q3 w2)) (Finite 2),
      fdiv (fadd (fadd (fmul (fneg q0) w0) (fmul (fneg q1) w1)) (fmul (fneg q2) w2)) (Finite 2))"

text \<open>States and commands whose entries may be non-finite.\<close>

record QuadrotorState_fl =
  position_fl :: fvec3
  velocity_fl :: fvec3
  orientation_fl :: fvec4
  angular_velocity_fl :: fvec3

datatype QuadrotorCommands_fl = RotorRates_fl fvec4 | ThrustTorque_fl fl fvec3

definition Full_step_fl ::
  "QuadrotorDynamicsBase \<Rightarrow> real \<Rightarrow> QuadrotorCommands_fl \<Rightarrow> QuadrotorState_fl
     \<Rightarrow> error + QuadrotorState_fl" where
  "Full_step_fl self t commands state =
     (let dt = Finite 0.005;
          position = position_fl state;
          velocity = velocity_fl state;
          orientation = orientation_fl state;
          angular_velocity = angular_velocity_fl state
      in case commands of
           RotorRates_fl rates \<Rightarrow> Inl AttributeError
         | ThrustTorque_fl u1 u2 \<Rightarrow>
             (let acceleration =
                    fvsub (fsmul (fdiv u1 (Finite (mass p))) (fvec (0, 0, 1)))
                          (fvec (0, 0, g p));
                  new_velocity = fvadd velocity (fvscale acceleration dt);
                  new_position = fvadd position (fvscale new_velocity dt)
              in case linalg_inv (inertia p) of
                   Inl e \<Rightarrow> Inl e
                 | Inr inertia_inv \<Rightarrow>
                     (let angular_acceleration =
                            fmatvec (fmat inertia_inv)
                              (fvsub u2 (fcross angular_velocity
                                           (fmatvec (fmat (inertia p)) angular_velocity)));
                          new_angular_velocity =
                            fvadd angular_velocity (fvscale angular_acceleration dt);
                          new_orientation = dRot3_fl orientation new_angular_velocity
                      in Inr \<lparr> position_fl = new_position,
                               velocity_fl = new_velocity,
                               orientation_fl = new_orientation,
                               angular_velocity_fl = new_angular_velocity \<rparr>)))"

text \<open>A state of real numbers as a state of finite numbers.\<close>

definition embed_state :: "QuadrotorState \<Rightarrow> QuadrotorState_fl" where
  "embed_state s = \<lparr> position_fl = fvec (position s),
                      velocity_fl = fvec (velocity s),
                      orientation_fl = fquat (to_storage (orientation s)),
                      angular_velocity_fl = fvec (angular_velocity s) \<rparr>"

section \<open>Auxiliary facts\<close>

lemma inertia_p: "inertia p = ((0.0098, 0, 0), (0, 0.01002, 0), (0, 0, 0.0186))"
  by (simp add: p_def)

lemma mass_p: "mass p = 1.352"
  by (simp add: p_def)

lemma g_p: "g p = 9.80665"
  by (simp add: p_def)

text \<open>The inertia of \<open>p\<close> is not singular: \<^verbatim>\<open>np.linalg.inv(p.inertia)\<close> returns.\<close>

lemma linalg_inv_inertia:
  "linalg_inv (inertia p) = Inr ((1 / 0.0098, 0, 0), (0, 1 / 0.01002, 0), (0, 0, 1 / 0.0186))"
  by (simp add: p_def)

lemma k_thrust_pos: "0 < k_thrust p"
  by (simp add: k_thrust_def rotor_model_def p_def)

lemma k_torque_pos: "0 < k_torque p"
  by (simp add: k_torque_def rotor_model_def p_def)

lemma from_ypr_level:
  "from_yaw_pitch_roll psi 0 0 = from_storage (0, 0, sin (psi / 2), cos (psi / 2))"
  by (simp add: from_yaw_pitch_roll_def from_angle_axis_x_def from_angle_axis_y_def
      from_angle_axis_z_def)

lemma initial_orientation: "from_yaw_pitch_roll 0 0 0 = from_storage (0, 0, 0, 1)"
  by (simp add: from_ypr_level)

lemma vsub_self: "vsub v v = (0, 0, 0)"
  by (cases v) simp

lemma dot3_zero: "dot3 r (0, 0, 0) = 0"
  by (cases r) simp

lemma matvec_zero: "matvec M (0, 0, 0) = (0, 0, 0)"
  by (cases M) (simp add: dot3_zero)

lemma fadd_NaN_right: "fadd x NaN = NaN"
  by (cases x) simp_all

section \<open>The quaternion rate\<close>

text \<open>
  C10. For every quaternion in xyzw storage and every body angular velocity, the
  4-dimensional dot product of the quaternion with the rate that dRot3 returns is
  exactly zero, and the rate at zero angular velocity is the zero 4-vector.
\<close>

theorem dRot3_orthogonal:
  "dot4 (to_storage R) (to_storage (dRot3 R omega)) = 0
   \<and> to_storage (dRot3 R (0, 0, 0)) = (0, 0, 0, 0)"
proof -
  obtain q0 q1 q2 q3 where R: "R = from_storage (q0, q1, q2, q3)"
    by (cases R) (metis prod_cases4)
  obtain w0 w1 w2 where w: "omega = (w0, w1, w2)"
    by (cases omega) auto
  have "dot4 (to_storage R) (to_storage (dRot3 R omega)) = 0"
    unfolding R w by (simp add: dRot3_def G_matrix_def field_simps)
  moreover have "to_storage (dRot3 R (0, 0, 0)) = (0, 0, 0, 0)"
    unfolding R by (simp add: dRot3_def G_matrix_def)
  ultimately show ?thesis by simp
qed

text \<open>
  The squared norm of the rate is the squared norm of the quaternion times the squared
  length of the angular velocity, over four.
\<close>

lemma dRot3_norm:
  "dot4 (to_storage (dRot3 R omega)) (to_storage (dRot3 R omega))
     = dot4 (to_storage R) (to_storage R) * dot3 omega omega / 4"
proof -
  obtain q0 q1 q2 q3 where R: "R = from_storage (q0, q1, q2, q3)"
    by (cases R) (metis prod_cases4)
  obtain w0 w1 w2 where w: "omega = (w0, w1, w2)"
    by (metis prod_cases3)
  show ?thesis
    unfolding R w by (simp add: dRot3_def G_matrix_def field_simps)
qed

section \<open>The step of the notebook 5-Controller-Full\<close>

text \<open>
  For every state and every thrust-torque command the step returns a state. Its
  orientation is the quaternion rate at the new angular velocity, not the old
  orientation advanced by that rate; its velocity has moved by 0.005 times the
  acceleration.
\<close>

lemma Full_step_returns:
  "\<exists>s. Full_step self t (ThrustTorque u tau) state = Inr s
      \<and> orientation s = dRot3 (orientation state) (angular_velocity s)
      \<and> velocity s = vadd (velocity state) (vscale (Full_acceleration u) 0.005)"
  by (simp add: Full_step_def linalg_inv_inertia Let_def)

text \<open>The timestep of the dynamics object has no influence on the step.\<close>

lemma Full_step_ignores_dt:
  "Full_step (self\<lparr>dt := h\<rparr>) t commands state = Full_step self t commands state"
  by (simp add: Full_step_def)

text \<open>
  C1. The claim is that the step returns an orientation of unit norm whenever it is
  given one. At the initial state of the notebook, whose orientation has norm 1, and the
  hover command (thrust mass * g, zero torque), the step returns the orientation
  (0, 0, 0, 0), of norm 0.
\<close>

theorem Full_step_orientation_not_unit:
  "norm4 (to_storage (orientation initial_state)) = 1
   \<and> (\<exists>s. Full_step \<lparr>dt = 0.005\<rparr> 0 (ThrustTorque (mass p * g p) (0, 0, 0)) initial_state
             = Inr s
        \<and> to_storage (orientation s) = (0, 0, 0, 0)
        \<and> norm4 (to_storage (orientation s)) = 0)"
  by (simp add: Full_step_def linalg_inv_inertia inertia_p initial_state_def
      initial_orientation norm4_def zeros3_def dRot3_def G_matrix_def Let_def)

text \<open>
  C2. The claim is that the acceleration of the step is the thrust vector rotated into
  the world frame, over the mass, plus gravity. With the vehicle rolled by pi (upside
  down), at rest, and the thrust mass * g, the acceleration of the step is zero and the
  velocity stays zero, where the rotated thrust gives the acceleration (0, 0, - 2 g).
\<close>

theorem Full_step_thrust_not_rotated:
  "Full_acceleration (mass p * g p) = (0, 0, 0)
   \<and> spec_acceleration (from_yaw_pitch_roll 0 0 pi) (mass p * g p) = (0, 0, - 2 * g p)
   \<and> (\<exists>s. Full_step \<lparr>dt = 0.005\<rparr> 0 (ThrustTorque (mass p * g p) (0, 0, 0))
               (initial_state\<lparr>orientation := from_yaw_pitch_roll 0 0 pi\<rparr>) = Inr s
           \<and> velocity s = (0, 0, 0))"
  by (simp add: Full_step_def Full_acceleration_def spec_acceleration_def mass_p g_p
      linalg_inv_inertia inertia_p initial_state_def zeros3_def Let_def
      from_yaw_pitch_roll_def from_angle_axis_x_def from_angle_axis_y_def
      from_angle_axis_z_def)

text \<open>
  C5. The claim is that one step advances the state by the timestep the driver is
  configured with. With a driver timestep of 0.01, from rest and with zero thrust, the
  step returns the velocity - g * 0.005 of its own interval 0.005, where an Euler step
  over 0.01 gives - g * 0.01.
\<close>

theorem Full_step_hardwired_dt:
  "\<exists>s. Full_step \<lparr>dt = 0.01\<rparr> 0 (ThrustTorque 0 (0, 0, 0)) initial_state = Inr s
      \<and> velocity s = (0, 0, - (g p * 0.005))
      \<and> euler_velocity 0.01 0 (velocity initial_state) = (0, 0, - (g p * 0.01))
      \<and> velocity s \<noteq> euler_velocity 0.01 0 (velocity initial_state)"
  by (simp add: Full_step_def Full_acceleration_def euler_velocity_def linalg_inv_inertia
      inertia_p initial_state_def initial_orientation zeros3_def Let_def g_p)

section \<open>The step on non-finite numbers\<close>

text \<open>On finite numbers the step of this section is the step on the reals.\<close>

lemma Full_step_fl_finite:
  "Full_step_fl self t (ThrustTorque_fl (Finite u) (fvec tau)) (embed_state state)
     = map_sum id embed_state (Full_step self t (ThrustTorque u tau) state)"
proof -
  obtain x0 x1 x2 where x: "position state = (x0, x1, x2)" by (metis prod_cases3)
  obtain v0 v1 v2 where v: "velocity state = (v0, v1, v2)" by (metis prod_cases3)
  obtain w0 w1 w2 where w: "angular_velocity state = (w0, w1, w2)" by (metis prod_cases3)
  obtain q0 q1 q2 q3 where q: "orientation state = from_storage (q0, q1, q2, q3)"
    by (cases "orientation state") (metis prod_cases4)
  obtain t0 t1 t2 where tau: "tau = (t0, t1, t2)" by (metis prod_cases3)
  show ?thesis
    by (simp add: Full_step_fl_def Full_step_def Full_acceleration_def embed_state_def
        linalg_inv_inertia inertia_p Let_def x v w q tau fsub_def mass_p dRot3_def
        G_matrix_def)
qed

text \<open>
  C6, as the claim states it, fails: from the initial state, a command whose thrust is
  NaN does not make the step fail. The step returns a state whose position and velocity
  are NaN in every component.
\<close>

theorem Full_step_fl_nan_propagates:
  "Full_step_fl \<lparr>dt = 0.005\<rparr> 0 (ThrustTorque_fl NaN (fvec (0, 0, 0)))
       (embed_state initial_state)
     = Inr \<lparr> position_fl = (NaN, NaN, NaN),
             velocity_fl = (NaN, NaN, NaN),
             orientation_fl = fquat (0, 0, 0, 0),
             angular_velocity_fl = fvec (0, 0, 0) \<rparr>"
  by (simp add: Full_step_fl_def embed_state_def initial_state_def initial_orientation
      zeros3_def linalg_inv_inertia inertia_p fsub_def Let_def)

text \<open>
  C6, amended. The step checks nothing about its numbers: for every state and every
  thrust-torque command, whether their entries are finite or not, it returns a next
  state and no error; and when the thrust is NaN, every component of the returned
  velocity is NaN, whatever the state and the torque.
\<close>

theorem Full_step_fl_never_rejects:
  "(\<exists>s. Full_step_fl self t (ThrustTorque_fl u1 u2) state = Inr s)
   \<and> (\<exists>s. Full_step_fl self t (ThrustTorque_fl NaN u2) state = Inr s
           \<and> velocity_fl s = (NaN, NaN, NaN))"
proof -
  obtain v0 v1 v2 where v: "velocity_fl state = (v0, v1, v2)"
    by (metis prod_cases3)
  show ?thesis
    by (simp add: Full_step_fl_def linalg_inv_inertia Let_def v fsub_def fadd_NaN_right)
qed

section \<open>The controller\<close>

lemma commanded_acceleration_at_goal:
  assumes "TrajectoryState.position trajectory = QuadrotorState.position state"
    and "velocity state = (0, 0, 0)"
  shows "commanded_acceleration self trajectory state = (0, 0, 0)"
  using assms by (simp add: commanded_acceleration_def zeros3_def vsub_self matvec_zero)

lemma desired_orientation_at_goal:
  assumes "TrajectoryState.position trajectory = QuadrotorState.position state"
    and "velocity state = (0, 0, 0)"
  shows "desired_orientation self trajectory state
           = from_yaw_pitch_roll (TrajectoryState.yaw trajectory) 0 0"
  by (simp add: desired_orientation_def commanded_acceleration_at_goal [OF assms])

text \<open>A level rotation composed with its own inverse is the identity quaternion.\<close>

lemma level_error_identity:
  "compose (from_yaw_pitch_roll psi 0 0) (inverse_rot (from_yaw_pitch_roll psi 0 0))
     = from_storage (0, 0, 0, 1)"
proof -
  have "cos (psi / 2) * cos (psi / 2) + sin (psi / 2) * sin (psi / 2) = 1"
    using sin_cos_squared_add [of "psi / 2"] by (simp add: power2_eq_square add.commute)
  then show ?thesis by (simp add: from_ypr_level)
qed

text \<open>
  C3, as the claim states it, fails: with the default gains, the sample at the origin
  and the vehicle at rest one metre above it, the controller emits the thrust
  mass * (g - 100), which is negative.
\<close>

theorem Controller_step_thrust_negative:
  "thrust_of (Controller_step \<lparr>params = controller_p\<rparr> 0 goal_sample
                (initial_state\<lparr>position := (0, 0, 1)\<rparr>)) = Some (mass p * (g p - 100))
   \<and> mass p * (g p - 100) < 0"
  by (simp add: Controller_step_def commanded_acceleration_def controller_p_def diag_def
      goal_sample_def initial_state_def zeros3_def mass_p g_p Let_def)

text \<open>
  C3, amended. For every trajectory sample and state, the thrust that the controller
  emits is mass * (g + a), where a is the z component of the commanded acceleration:
  the third row of K_p applied to the position error plus the third row of K_d applied
  to the velocity error, the desired velocity being zero. The value is not clamped.
\<close>

theorem Controller_step_thrust_unclamped:
  "thrust_of (Controller_step self t trajectory state)
     = Some (mass p * (g p
               + (dot3 (at2 (K_p (params self)))
                    (vsub (TrajectoryState.position trajectory)
                          (QuadrotorState.position state))
                  + dot3 (at2 (K_d (params self)))
                      (vsub (0, 0, 0) (velocity state)))))"
proof -
  obtain k0 k1 k2 where K: "K_p (params self) = (k0, k1, k2)"
    by (metis prod_cases3)
  obtain d0 d1 d2 where D: "K_d (params self) = (d0, d1, d2)"
    by (metis prod_cases3)
  show ?thesis
    by (simp add: Controller_step_def commanded_acceleration_def zeros3_def K D Let_def)
qed

text \<open>
  C7. When the desired position is the actual position, the velocity and the angular
  velocity are zero and the orientation is the desired orientation that the controller
  computes, the controller returns the thrust mass * g and the zero torque.
\<close>

theorem Controller_step_at_goal:
  assumes "TrajectoryState.position trajectory = QuadrotorState.position state"
    and "velocity state = (0, 0, 0)"
    and "angular_velocity state = (0, 0, 0)"
    and "orientation state = desired_orientation self trajectory state"
  shows "Controller_step self t trajectory state = ThrustTorque (mass p * g p) (0, 0, 0)"
proof -
  have acc: "commanded_acceleration self trajectory state = (0, 0, 0)"
    using assms(1,2) by (rule commanded_acceleration_at_goal)
  have des: "desired_orientation self trajectory state
               = from_yaw_pitch_roll (TrajectoryState.yaw trajectory) 0 0"
    using assms(1,2) by (rule desired_orientation_at_goal)
  have err: "compose (desired_orientation self trajectory state)
                     (inverse_rot (orientation state)) = from_storage (0, 0, 0, 1)"
    unfolding assms(4) [unfolded des] des by (rule level_error_identity)
  show ?thesis
    by (simp add: Controller_step_def acc err assms(3) zeros3_def vsub_self matvec_zero)
qed

theorem Controller_step_at_goal_witness:
  "TrajectoryState.position goal_sample = QuadrotorState.position initial_state
   \<and> velocity initial_state = (0, 0, 0)
   \<and> angular_velocity initial_state = (0, 0, 0)
   \<and> orientation initial_state
       = desired_orientation \<lparr>params = controller_p\<rparr> goal_sample initial_state
   \<and> Controller_step \<lparr>params = controller_p\<rparr> 0 goal_sample initial_state
       = ThrustTorque (mass p * g p) (0, 0, 0)"
proof -
  have h1: "TrajectoryState.position goal_sample = QuadrotorState.position initial_state"
    by (simp add: goal_sample_def initial_state_def zeros3_def)
  have h2: "velocity initial_state = (0, 0, 0)"
    by (simp add: initial_state_def)
  have h3: "angular_velocity initial_state = (0, 0, 0)"
    by (simp add: initial_state_def zeros3_def)
  have h4: "orientation initial_state
              = desired_orientation \<lparr>params = controller_p\<rparr> goal_sample initial_state"
    by (simp add: desired_orientation_at_goal [OF h1 h2])
       (simp add: initial_state_def goal_sample_def)
  show ?thesis
    using h1 h2 h3 h4 Controller_step_at_goal [OF h1 h2 h3 h4, of 0] by simp
qed

text \<open>
  C9, as the claim states it, fails: with K_p the zero matrix, which is not a matrix of
  strictly positive diagonal entries, constructing the controller succeeds.
\<close>

theorem Controller_init_accepts_invalid_gains:
  "\<not> gains_valid (controller_p\<lparr>K_p := diag 0 0 0\<rparr>)
   \<and> Controller_init (controller_p\<lparr>K_p := diag 0 0 0\<rparr>)
       = Inr \<lparr>params = controller_p\<lparr>K_p := diag 0 0 0\<rparr>\<rparr>"
  by (simp add: gains_valid_def Controller_init_def diag_def)

text \<open>
  C9, amended. Constructing the controller never fails and validates nothing: for every
  parameter record, whether or not its gain matrices are diagonal with strictly
  positive entries, the constructor returns a controller that holds the record
  unchanged.
\<close>

theorem Controller_init_accepts: "Controller_init ps = Inr \<lparr>params = ps\<rparr>"
  by (simp add: Controller_init_def)

section \<open>The dynamics of the notebook 3 - Reworking\<close>

text \<open>
  The acceleration of \<^verbatim>\<open>state_derivative\<close> is the one the specification words: here
  the thrust is rotated into the world frame.
\<close>

lemma state_derivative_acceleration:
  "\<exists>d. state_derivative state (0, 0, u) tau = Inr d
      \<and> velocity d = spec_acceleration (orientation state) u"
proof -
  obtain a b c where R: "matvec (to_rotation_matrix (orientation state)) (0, 0, u) = (a, b, c)"
    by (metis prod_cases3)
  show ?thesis
    by (simp add: state_derivative_def spec_acceleration_def linalg_inv_inertia R mass_p g_p
        Let_def)
qed

text \<open>
  C4. The claim is that the yaw torque is k_torque times the alternating sum of the
  squared rotor rates. At the rates (2, 1, 1, 1) the step mixes the yaw torque
  k_torque * (2 - 1 + 1 - 1) = k_torque, where the squared rates give
  k_torque * (4 - 1 + 1 - 1) = 3 * k_torque.
\<close>

theorem Reworking_yaw_torque_not_squared:
  "at2 (Reworking_u2 (2, 1, 1, 1)) = k_torque p
   \<and> k_torque p \<noteq> k_torque p * (2\<^sup>2 - 1\<^sup>2 + 1\<^sup>2 - 1\<^sup>2)"
  using k_torque_pos by simp

lemma hovering_thrust: "k_thrust p * hovering_rotor_rate\<^sup>2 = required_thrust / 4"
proof -
  have k: "0 < k_thrust p" by (rule k_thrust_pos)
  have "0 \<le> required_thrust" by (simp add: required_thrust_def mass_p g_p)
  with k have "0 \<le> required_thrust / (4 * k_thrust p)" by simp
  then have "hovering_rotor_rate\<^sup>2 = required_thrust / (4 * k_thrust p)"
    by (simp add: hovering_rotor_rate_def)
  with k show ?thesis by simp
qed

lemma hovering_u1: "Reworking_u1 hovering_rates = (0, 0, required_thrust)"
  by (simp add: Reworking_u1_def hovering_rates_def hovering_thrust)

lemma hovering_u2: "Reworking_u2 hovering_rates = (0, 0, 0)"
  by (simp add: hovering_rates_def)

lemma level_thrust_direction:
  "matvec (to_rotation_matrix (from_yaw_pitch_roll psi 0 0)) (0, 0, u) = (0, 0, u)"
  by (simp add: from_ypr_level)

text \<open>
  C8. With the vehicle level (any yaw, zero pitch and roll) and the hovering rotor rate
  on all four rotors, the state derivative exists, its vertical acceleration is within
  1% of g of zero, and the mixed torque is the zero vector.
\<close>

theorem hover_equilibrium:
  "\<exists>d. state_derivative (state\<lparr>orientation := from_yaw_pitch_roll psi 0 0\<rparr>)
          (Reworking_u1 hovering_rates) (Reworking_u2 hovering_rates) = Inr d
      \<and> \<bar>at2 (velocity d)\<bar> \<le> 0.01 * g p
      \<and> Reworking_u2 hovering_rates = (0, 0, 0)"
  by (simp add: state_derivative_def hovering_u1 hovering_u2 linalg_inv_inertia
      level_thrust_direction required_thrust_def mass_p g_p Let_def)

end
